theory Spec2Isabelle
  imports Main "HOL-Library.Multiset"
begin

section \<open>The microblog backend (backend/main.py) as a state-passing model\<close>

text \<open>
  The program is one FastAPI module over three SQLAlchemy tables. A table is the list of
  its rows in storage order; a handler takes the database and returns the database
  together with either the error it raises or the response it sends. A handler that
  raises commits nothing, so the database it returns is the one it was given.
\<close>

subsection \<open>Schema (main.py, lines 30-55)\<close>

text \<open>
  The column \<^verbatim>\<open>id\<close> of each table is named after its table (\<open>uid\<close>, \<open>pid\<close>,
  \<open>lid\<close>), since HOL has one name space for the fields of all records; the column
  \<^verbatim>\<open>text\<close> is \<open>post_text\<close>, since \<^verbatim>\<open>text\<close> is a keyword.
\<close>

record UserDB =
  uid :: string
  username :: string
  password :: string

text \<open>
  The pydantic class \<^verbatim>\<open>Post\<close> (lines 58-65) has the five fields of \<^verbatim>\<open>PostDB\<close>
  and is filled from it field by field (\<^verbatim>\<open>orm_mode\<close>), so one record stands for both.
  A timestamp is a point on a linear time scale.
\<close>

record PostDB =
  pid :: string
  post_text :: string
  timestamp :: int
  owner_id :: string
  owner_username :: string

record LikeDB =
  lid :: int
  user_id :: string
  post_id :: string

record DB =
  users :: "UserDB list"
  posts :: "PostDB list"
  likes :: "LikeDB list"

subsection \<open>Pydantic models (lines 67-78) and responses\<close>

record User =
  User_id :: string
  User_username :: string

record PostWithLikes = PostDB +
  likes_count :: nat
  liked_by_me :: bool

record Token =
  access_token :: string
  token_type :: string
  user :: User

datatype body =
    NoContent
  | Message string
  | PostJson PostDB
  | PostsJson "PostWithLikes list"
  | TokenJson Token

record response =
  status_code :: nat
  content :: body

text \<open>
  What a request can end with instead of a response: an \<^verbatim>\<open>HTTPException\<close> raised by
  a handler (its status and detail), FastAPI's rejection of a request that lacks a
  required parameter, and the two exceptions that no handler catches.
\<close>

datatype error =
    HTTPException nat string
  | RequestValidationError
  | IntegrityError
  | IndexError

fun error_status :: "error \<Rightarrow> nat" where
  "error_status (HTTPException code detail) = code"
| "error_status RequestValidationError = 422"
| "error_status IntegrityError = 500"
| "error_status IndexError = 500"

fun http_status :: "error + response \<Rightarrow> nat" where
  "http_status (Inl e) = error_status e"
| "http_status (Inr r) = status_code r"

subsection \<open>Queries\<close>

text \<open>\<^verbatim>\<open>db.query(T).filter_by(...).first()\<close>: the first matching row, or None.\<close>

definition query_user_by_username :: "DB \<Rightarrow> string \<Rightarrow> UserDB option" where
  "query_user_by_username db name = find (\<lambda>u. username u = name) (users db)"

definition query_post_by_id :: "DB \<Rightarrow> string \<Rightarrow> PostDB option" where
  "query_post_by_id db i = find (\<lambda>p. pid p = i) (posts db)"

definition query_like :: "DB \<Rightarrow> string \<Rightarrow> string \<Rightarrow> LikeDB option" where
  "query_like db u p = find (\<lambda>l. user_id l = u \<and> post_id l = p) (likes db)"

text \<open>\<^verbatim>\<open>db.query(LikeDB).filter_by(post_id=...).count()\<close>\<close>

definition count_likes :: "DB \<Rightarrow> string \<Rightarrow> nat" where
  "count_likes db p = length (filter (\<lambda>l. post_id l = p) (likes db))"

text \<open>\<^verbatim>\<open>order_by(PostDB.timestamp.desc())\<close>\<close>

definition order_by_timestamp_desc :: "PostDB list \<Rightarrow> PostDB list" where
  "order_by_timestamp_desc ps = sort_key (\<lambda>p. - timestamp p) ps"

subsection \<open>Strings\<close>

text \<open>Python's \<^verbatim>\<open>s.startswith(p)\<close> and \<^verbatim>\<open>s.split(c)\<close> for a one-character separator.\<close>

definition startswith :: "string \<Rightarrow> string \<Rightarrow> bool" where
  "startswith s p = (take (length p) s = p)"

fun str_split :: "char \<Rightarrow> string \<Rightarrow> string list" where
  "str_split c [] = [[]]"
| "str_split c (x # xs) =
     (if x = c then [] # str_split c xs
      else (case str_split c xs of
              [] \<Rightarrow> [[x]]
            | w # ws \<Rightarrow> (x # w) # ws))"

text \<open>\<^verbatim>\<open>authorization.split(" ")[1]\<close>; an index out of range raises.\<close>

definition bearer_token :: "string \<Rightarrow> error + string" where
  "bearer_token authorization =
     (case str_split CHR '' '' authorization of
        a # token # rest \<Rightarrow> Inr token
      | _ \<Rightarrow> Inl IndexError)"

subsection \<open>Writes, with the constraints the schema declares\<close>

text \<open>
  An INSERT into \<^verbatim>\<open>users\<close>: \<^verbatim>\<open>id\<close> is the primary key and \<^verbatim>\<open>username\<close> is
  unique (lines 32-33); the store refuses a row that breaks either.
\<close>

fun insert_users :: "UserDB list \<Rightarrow> UserDB list \<Rightarrow> error + UserDB list" where
  "insert_users table [] = Inr table"
| "insert_users table (u # us) =
     (if list_ex (\<lambda>r. uid r = uid u \<or> username r = username u) table
      then Inl IntegrityError
      else insert_users (table @ [u]) us)"

text \<open>An INSERT into \<^verbatim>\<open>posts\<close>: \<^verbatim>\<open>id\<close> is the primary key (line 40).\<close>

definition insert_post :: "DB \<Rightarrow> PostDB \<Rightarrow> error + DB" where
  "insert_post db new_post =
     (if list_ex (\<lambda>p. pid p = pid new_post) (posts db) then Inl IntegrityError
      else Inr (db\<lparr>posts := posts db @ [new_post]\<rparr>))"

text \<open>
  An INSERT into \<^verbatim>\<open>likes\<close>: the integer primary key is assigned by the store (one
  more than the largest in the table), and the pair \<^verbatim>\<open>(user_id, post_id)\<close> is unique
  (\<^verbatim>\<open>UniqueConstraint('user_id', 'post_id', name='_user_post_uc')\<close>, line 55).
\<close>

definition next_lid :: "LikeDB list \<Rightarrow> int" where
  "next_lid ls = (case ls of [] \<Rightarrow> 1 | l # rest \<Rightarrow> fold max (map lid rest) (lid l) + 1)"

definition insert_like :: "DB \<Rightarrow> string \<Rightarrow> string \<Rightarrow> error + DB" where
  "insert_like db u p =
     (if list_ex (\<lambda>l. user_id l = u \<and> post_id l = p) (likes db) then Inl IntegrityError
      else Inr (db\<lparr>likes := likes db @ [\<lparr>lid = next_lid (likes db), user_id = u, post_id = p\<rparr>]\<rparr>))"

text \<open>
  \<^verbatim>\<open>db.delete(post); db.commit()\<close>. \<^verbatim>\<open>PostDB.likes\<close> is declared
  \<^verbatim>\<open>relationship("LikeDB", back_populates="post")\<close> (line 46) with no delete cascade
  and no \<^verbatim>\<open>passive_deletes\<close>, so when the session flushes the deletion of a post the
  ORM first detaches the post's likes: it loads them and issues
  \<^verbatim>\<open>UPDATE likes SET post_id=NULL\<close> for each. The column is declared
  \<^verbatim>\<open>nullable=False\<close> (line 52), so the store refuses that update, the commit raises
  \<^verbatim>\<open>IntegrityError\<close> and the transaction is rolled back. A post with no like is
  deleted by its primary key.
\<close>

definition delete_post_row :: "DB \<Rightarrow> PostDB \<Rightarrow> error + DB" where
  "delete_post_row db post =
     (if list_ex (\<lambda>l. post_id l = pid post) (likes db) then Inl IntegrityError
      else Inr (db\<lparr>posts := filter (\<lambda>p. pid p \<noteq> pid post) (posts db)\<rparr>))"

text \<open>
  \<^verbatim>\<open>db.delete(like); db.commit()\<close>: \<^verbatim>\<open>LikeDB\<close> is the many side of both of its
  relationships, so the row is deleted by its primary key and nothing else is touched.
\<close>

definition delete_like_row :: "DB \<Rightarrow> LikeDB \<Rightarrow> DB" where
  "delete_like_row db like = db\<lparr>likes := filter (\<lambda>l. lid l \<noteq> lid like) (likes db)\<rparr>"

subsection \<open>Startup (lines 81-95)\<close>

definition FAKE_USERS_DB :: "UserDB list" where
  "FAKE_USERS_DB =
     [\<lparr>uid = ''1'', username = ''user1'', password = ''password1''\<rparr>,
      \<lparr>uid = ''2'', username = ''user2'', password = ''password2''\<rparr>]"

definition on_startup :: "DB \<Rightarrow> error + DB" where
  "on_startup db =
     (let pending = filter (\<lambda>u. query_user_by_username db (username u) = None) FAKE_USERS_DB
      in case insert_users (users db) pending of
           Inl e \<Rightarrow> Inl e
         | Inr table \<Rightarrow> Inr (db\<lparr>users := table\<rparr>))"

definition empty_db :: DB where
  "empty_db = \<lparr>users = [], posts = [], likes = []\<rparr>"

subsection \<open>Authentication (lines 106-122)\<close>

definition get_current_user :: "DB \<Rightarrow> string \<Rightarrow> error + User" where
  "get_current_user db authorization =
     (if \<not> startswith authorization ''Bearer '' then Inl (HTTPException 401 ''Invalid scheme'')
      else case bearer_token authorization of
             Inl e \<Rightarrow> Inl e
           | Inr token \<Rightarrow>
               (case query_user_by_username db token of
                  None \<Rightarrow> Inl (HTTPException 401 ''Invalid token'')
                | Some user_db \<Rightarrow> Inr \<lparr>User_id = uid user_db, User_username = username user_db\<rparr>))"

text \<open>
  \<^verbatim>\<open>current_user: Annotated[User, Depends(get_current_user)]\<close>, where the parameter
  of \<^verbatim>\<open>get_current_user\<close> is \<^verbatim>\<open>authorization: Annotated[str, Header()]\<close>: a
  required header. FastAPI calls the function only when the header is there; a request
  without it is rejected as invalid (422), like any request lacking a required field.
\<close>

definition Depends_get_current_user :: "DB \<Rightarrow> string option \<Rightarrow> error + User" where
  "Depends_get_current_user db authorization =
     (case authorization of
        None \<Rightarrow> Inl RequestValidationError
      | Some h \<Rightarrow> get_current_user db h)"

text \<open>
  \<^verbatim>\<open>form_data: Dict[str, str]\<close>; \<^verbatim>\<open>form_data.get(k)\<close> is None for a missing key,
  and no row has a NULL username.
\<close>

definition login :: "DB \<Rightarrow> (string \<rightharpoonup> string) \<Rightarrow> error + response" where
  "login db form_data =
     (let name = form_data ''username'';
          pw = form_data ''password'';
          found = (case name of None \<Rightarrow> None | Some n \<Rightarrow> query_user_by_username db n)
      in case found of
           None \<Rightarrow> Inl (HTTPException 401 ''Incorrect username or password'')
         | Some u \<Rightarrow>
             if Some (password u) \<noteq> pw
             then Inl (HTTPException 401 ''Incorrect username or password'')
             else Inr \<lparr>status_code = 200,
                       content = TokenJson
                         \<lparr>access_token = username u, token_type = ''bearer'',
                          user = \<lparr>User_id = uid u, User_username = username u\<rparr>\<rparr>\<rparr>)"

subsection \<open>Posts (lines 125-173, 200-227)\<close>

text \<open>
  The caller of a listing (lines 128-133 and 206-211, the same code twice): the header is
  optional, and the caller stays unknown unless the header is there, is not empty, starts
  with the scheme and names a user.
\<close>

definition optional_user_id :: "DB \<Rightarrow> string option \<Rightarrow> error + string option" where
  "optional_user_id db authorization =
     (case authorization of
        None \<Rightarrow> Inr None
      | Some h \<Rightarrow>
          if h \<noteq> [] \<and> startswith h ''Bearer '' then
            (case bearer_token h of
               Inl e \<Rightarrow> Inl e
             | Inr token \<Rightarrow>
                 (case query_user_by_username db token of
                    None \<Rightarrow> Inr None
                  | Some row \<Rightarrow> Inr (Some (uid row))))
          else Inr None)"

text \<open>
  The body of the loop (lines 135-148 and 213-226). \<^verbatim>\<open>if user_id:\<close> is false for
  None and for the empty string.
\<close>

definition post_with_likes :: "DB \<Rightarrow> string option \<Rightarrow> PostDB \<Rightarrow> PostWithLikes" where
  "post_with_likes db caller post =
     \<lparr>pid = pid post, post_text = post_text post, timestamp = timestamp post,
      owner_id = owner_id post, owner_username = owner_username post,
      likes_count = count_likes db (pid post),
      liked_by_me =
        (case caller of
           None \<Rightarrow> False
         | Some u \<Rightarrow> if u = [] then False else query_like db u (pid post) \<noteq> None)\<rparr>"

definition list_posts :: "DB \<Rightarrow> string option \<Rightarrow> error + response" where
  "list_posts db authorization =
     (let found = order_by_timestamp_desc (posts db)
      in case optional_user_id db authorization of
           Inl e \<Rightarrow> Inl e
         | Inr caller \<Rightarrow>
             Inr \<lparr>status_code = 200, content = PostsJson (map (post_with_likes db caller) found)\<rparr>)"

definition get_user_posts :: "DB \<Rightarrow> string \<Rightarrow> string option \<Rightarrow> error + response" where
  "get_user_posts db name authorization =
     (case query_user_by_username db name of
        None \<Rightarrow> Inl (HTTPException 404 ''User not found'')
      | Some owner \<Rightarrow>
          (let found = order_by_timestamp_desc (filter (\<lambda>p. owner_id p = uid owner) (posts db))
           in case optional_user_id db authorization of
                Inl e \<Rightarrow> Inl e
              | Inr caller \<Rightarrow>
                  Inr \<lparr>status_code = 200,
                       content = PostsJson (map (post_with_likes db caller) found)\<rparr>))"

text \<open>
  \<^verbatim>\<open>create_post\<close>: \<open>new_id\<close> is the value of \<^verbatim>\<open>str(uuid.uuid4())\<close> and \<open>now\<close> the
  value of \<^verbatim>\<open>datetime.now(timezone.utc)\<close>; \<open>post_data\<close> is the field \<^verbatim>\<open>text\<close> of
  the validated \<^verbatim>\<open>PostCreate\<close>, its only field.
\<close>

definition create_post :: "DB \<Rightarrow> string \<Rightarrow> User \<Rightarrow> string \<Rightarrow> int \<Rightarrow> DB \<times> (error + response)" where
  "create_post db post_data current_user new_id now =
     (let new_post = \<lparr>pid = new_id, post_text = post_data, timestamp = now,
                      owner_id = User_id current_user,
                      owner_username = User_username current_user\<rparr>
      in case insert_post db new_post of
           Inl e \<Rightarrow> (db, Inl e)
         | Inr db' \<Rightarrow> (db', Inr \<lparr>status_code = 201, content = PostJson new_post\<rparr>))"

definition delete_post :: "DB \<Rightarrow> string \<Rightarrow> User \<Rightarrow> DB \<times> (error + response)" where
  "delete_post db post_id' current_user =
     (case query_post_by_id db post_id' of
        None \<Rightarrow> (db, Inl (HTTPException 404 ''Post not found''))
      | Some post \<Rightarrow>
          if owner_id post \<noteq> User_id current_user
          then (db, Inl (HTTPException 403 ''Not authorized to delete this post''))
          else (case delete_post_row db post of
                  Inl e \<Rightarrow> (db, Inl e)
                | Inr db' \<Rightarrow> (db', Inr \<lparr>status_code = 204, content = NoContent\<rparr>)))"

subsection \<open>Likes (lines 176-197)\<close>

definition like_post :: "DB \<Rightarrow> string \<Rightarrow> User \<Rightarrow> DB \<times> (error + response)" where
  "like_post db post_id' current_user =
     (case query_post_by_id db post_id' of
        None \<Rightarrow> (db, Inl (HTTPException 404 ''Post not found''))
      | Some post \<Rightarrow>
          (case query_like db (User_id current_user) post_id' of
             Some like \<Rightarrow> (db, Inl (HTTPException 400 ''Already liked''))
           | None \<Rightarrow>
               (case insert_like db (User_id current_user) post_id' of
                  Inl e \<Rightarrow> (db, Inl e)
                | Inr db' \<Rightarrow> (db', Inr \<lparr>status_code = 201, content = Message ''Liked''\<rparr>))))"

definition unlike_post :: "DB \<Rightarrow> string \<Rightarrow> User \<Rightarrow> DB \<times> (error + response)" where
  "unlike_post db post_id' current_user =
     (case query_like db (User_id current_user) post_id' of
        None \<Rightarrow> (db, Inl (HTTPException 404 ''Like not found''))
      | Some like \<Rightarrow>
          (delete_like_row db like, Inr \<lparr>status_code = 204, content = NoContent\<rparr>))"

text \<open>
  The same handler when the store is shared with other clients: its two queries read the
  database as it is when the request arrives, and the INSERT reaches the database as it is
  at commit, after the transactions \<open>others\<close> that were committed in between. The
  handler has no \<^verbatim>\<open>try\<close> around \<^verbatim>\<open>db.commit()\<close>.
\<close>

definition like_post_shared :: "(DB \<Rightarrow> DB) \<Rightarrow> DB \<Rightarrow> string \<Rightarrow> User \<Rightarrow> DB \<times> (error + response)" where
  "like_post_shared others db post_id' current_user =
     (case query_post_by_id db post_id' of
        None \<Rightarrow> (others db, Inl (HTTPException 404 ''Post not found''))
      | Some post \<Rightarrow>
          (case query_like db (User_id current_user) post_id' of
             Some like \<Rightarrow> (others db, Inl (HTTPException 400 ''Already liked''))
           | None \<Rightarrow>
               (case insert_like (others db) (User_id current_user) post_id' of
                  Inl e \<Rightarrow> (others db, Inl e)
                | Inr db' \<Rightarrow> (db', Inr \<lparr>status_code = 201, content = Message ''Liked''\<rparr>))))"

subsection \<open>The endpoints that require a caller\<close>

text \<open>
  FastAPI resolves \<^verbatim>\<open>Depends(get_current_user)\<close> before it validates the body, and an
  exception raised by the dependency ends the request. The body of a create request is a
  JSON object, here the map from its keys to its string values; \<^verbatim>\<open>PostCreate\<close> has one
  required field, \<^verbatim>\<open>text: str\<close>.
\<close>

definition create_post_endpoint ::
  "DB \<Rightarrow> string option \<Rightarrow> (string \<rightharpoonup> string) \<Rightarrow> string \<Rightarrow> int \<Rightarrow> DB \<times> (error + response)" where
  "create_post_endpoint db authorization json new_id now =
     (case Depends_get_current_user db authorization of
        Inl e \<Rightarrow> (db, Inl e)
      | Inr current_user \<Rightarrow>
          (case json ''text'' of
             None \<Rightarrow> (db, Inl RequestValidationError)
           | Some post_data \<Rightarrow> create_post db post_data current_user new_id now))"

definition delete_post_endpoint :: "DB \<Rightarrow> string option \<Rightarrow> string \<Rightarrow> DB \<times> (error + response)" where
  "delete_post_endpoint db authorization post_id' =
     (case Depends_get_current_user db authorization of
        Inl e \<Rightarrow> (db, Inl e)
      | Inr current_user \<Rightarrow> delete_post db post_id' current_user)"

definition like_post_endpoint :: "DB \<Rightarrow> string option \<Rightarrow> string \<Rightarrow> DB \<times> (error + response)" where
  "like_post_endpoint db authorization post_id' =
     (case Depends_get_current_user db authorization of
        Inl e \<Rightarrow> (db, Inl e)
      | Inr current_user \<Rightarrow> like_post db post_id' current_user)"

definition unlike_post_endpoint :: "DB \<Rightarrow> string option \<Rightarrow> string \<Rightarrow> DB \<times> (error + response)" where
  "unlike_post_endpoint db authorization post_id' =
     (case Depends_get_current_user db authorization of
        Inl e \<Rightarrow> (db, Inl e)
      | Inr current_user \<Rightarrow> unlike_post db post_id' current_user)"

subsection \<open>What the schema keeps true\<close>

text \<open>
  The primary key of \<^verbatim>\<open>likes\<close> (line 50) and its unique constraint on
  \<^verbatim>\<open>(user_id, post_id)\<close> (line 55).
\<close>

definition likes_pk :: "DB \<Rightarrow> bool" where
  "likes_pk db = distinct (map lid (likes db))"

definition likes_unique :: "DB \<Rightarrow> bool" where
  "likes_unique db = distinct (map (\<lambda>l. (user_id l, post_id l)) (likes db))"

text \<open>The users after the first start on an empty store.\<close>

definition seeded :: "DB \<Rightarrow> bool" where
  "seeded db = (users db = FAKE_USERS_DB)"

subsection \<open>The application as a whole\<close>

text \<open>
  The requests that can change the store, with the header they carry, and the
  application's dispatch to the handler of each. \<open>run\<close> serves a sequence of requests
  one after the other.
\<close>

datatype request =
    CreatePost "string option" "string \<rightharpoonup> string" string int
  | DeletePost "string option" string
  | LikePost "string option" string
  | UnlikePost "string option" string

fun authorization_of :: "request \<Rightarrow> string option" where
  "authorization_of (CreatePost authorization json new_id now) = authorization"
| "authorization_of (DeletePost authorization post_id') = authorization"
| "authorization_of (LikePost authorization post_id') = authorization"
| "authorization_of (UnlikePost authorization post_id') = authorization"

fun app :: "DB \<Rightarrow> request \<Rightarrow> DB \<times> (error + response)" where
  "app db (CreatePost authorization json new_id now) =
     create_post_endpoint db authorization json new_id now"
| "app db (DeletePost authorization post_id') = delete_post_endpoint db authorization post_id'"
| "app db (LikePost authorization post_id') = like_post_endpoint db authorization post_id'"
| "app db (UnlikePost authorization post_id') = unlike_post_endpoint db authorization post_id'"

fun run :: "DB \<Rightarrow> request list \<Rightarrow> DB" where
  "run db [] = db"
| "run db (r # rs) = run (fst (app db r)) rs"

subsection \<open>What the specification asks of a listing\<close>



subsection \<open>Example states\<close>

text \<open>
  The scenario of the specification: user1 has posted "hello" (\<open>db_hello\<close>); then
  user2 likes it (\<open>db_liked\<close>), and user1 too (\<open>db_both\<close>). In \<open>db_two\<close> user2 has
  posted a second, later post, which user1 likes.
\<close>

definition user1 :: User where
  "user1 = \<lparr>User_id = ''1'', User_username = ''user1''\<rparr>"

definition user2 :: User where
  "user2 = \<lparr>User_id = ''2'', User_username = ''user2''\<rparr>"

definition hello_post :: PostDB where
  "hello_post = \<lparr>pid = ''p1'', post_text = ''hello'', timestamp = 10,
                  owner_id = ''1'', owner_username = ''user1''\<rparr>"

definition reply_post :: PostDB where
  "reply_post = \<lparr>pid = ''p2'', post_text = ''hi'', timestamp = 20,
                  owner_id = ''2'', owner_username = ''user2''\<rparr>"

definition db_hello :: DB where
  "db_hello = \<lparr>users = FAKE_USERS_DB, posts = [hello_post], likes = []\<rparr>"

definition db_liked :: DB where
  "db_liked = \<lparr>users = FAKE_USERS_DB, posts = [hello_post],
                likes = [\<lparr>lid = 1, user_id = ''2'', post_id = ''p1''\<rparr>]\<rparr>"

definition db_both :: DB where
  "db_both = \<lparr>users = FAKE_USERS_DB, posts = [hello_post],
               likes = [\<lparr>lid = 1, user_id = ''2'', post_id = ''p1''\<rparr>,
                        \<lparr>lid = 2, user_id = ''1'', post_id = ''p1''\<rparr>]\<rparr>"

definition db_two :: DB where
  "db_two = \<lparr>users = FAKE_USERS_DB, posts = [hello_post, reply_post],
              likes = [\<lparr>lid = 1, user_id = ''1'', post_id = ''p2''\<rparr>]\<rparr>"

text \<open>The definitions to unfold when a handler is evaluated on an example.\<close>

lemmas example_defs =
  user1_def user2_def hello_post_def db_hello_def db_liked_def FAKE_USERS_DB_def

lemmas more_example_defs = reply_post_def db_two_def db_both_def

lemmas handler_defs =
  query_user_by_username_def query_post_by_id_def query_like_def count_likes_def
  startswith_def bearer_token_def get_current_user_def Depends_get_current_user_def
  insert_post_def insert_like_def next_lid_def delete_post_row_def delete_like_row_def
  create_post_def delete_post_def like_post_def unlike_post_def
  create_post_endpoint_def delete_post_endpoint_def like_post_endpoint_def unlike_post_endpoint_def

lemmas listing_defs =
  list_posts_def get_user_posts_def optional_user_id_def post_with_likes_def
  order_by_timestamp_desc_def

section \<open>Properties\<close>

subsection \<open>Strings and startup\<close>

lemma str_split_no_sep: "c \<notin> set s \<Longrightarrow> str_split c s = [s]"
  by (induction s) auto

lemma str_split_ne: "str_split c s \<noteq> []"
  by (induction s) (auto split: list.splits)

lemma str_split_hd: "\<exists>w ws. str_split c s = w # ws"
  using str_split_ne by (cases "str_split c s") auto

lemma bearer_token_prefix:
  "bearer_token (''Bearer '' @ s) = Inr (hd (str_split CHR '' '' s))"
  using str_split_hd[of "CHR '' ''" s] by (auto simp: bearer_token_def)

lemma startswith_Bearer: "startswith (''Bearer '' @ s) ''Bearer ''"
  by (simp add: startswith_def)


lemma insert_users_Inr: "insert_users t ps = Inr t' \<Longrightarrow> t' = t @ ps"
  by (induction ps arbitrary: t) (force split: if_splits)+

lemma on_startup_empty:
  "on_startup empty_db = Inr \<lparr>users = FAKE_USERS_DB, posts = [], likes = []\<rparr>"
  by (simp add: on_startup_def empty_db_def FAKE_USERS_DB_def query_user_by_username_def)

lemma FAKE_no_space: "u \<in> set FAKE_USERS_DB \<Longrightarrow> CHR '' '' \<notin> set (username u)"
  by (auto simp: FAKE_USERS_DB_def)


lemma query_user_None:
  "query_user_by_username db name = None \<longleftrightarrow> (\<forall>u\<in>set (users db). username u \<noteq> name)"
  by (auto simp: query_user_by_username_def find_None_iff)


lemma find_append_None: "find P xs = None \<Longrightarrow> find P (xs @ ys) = find P ys"
  by (induction xs) (auto split: if_splits)

lemma on_startup_seeds:
  assumes "on_startup db0 = Inr db" and "u \<in> set FAKE_USERS_DB"
    and "query_user_by_username db0 (username u) = None"
  shows "query_user_by_username db (username u) = Some u"
proof -
  let ?pending = "filter (\<lambda>r. query_user_by_username db0 (username r) = None) FAKE_USERS_DB"
  from assms(1) obtain t where t: "insert_users (users db0) ?pending = Inr t" and db: "db = db0\<lparr>users := t\<rparr>"
    by (auto simp: on_startup_def Let_def split: sum.splits)
  from t have "t = users db0 @ ?pending" by (rule insert_users_Inr)
  with db have "query_user_by_username db (username u) = find (\<lambda>r. username r = username u) ?pending"
    using assms(3) by (simp add: query_user_by_username_def find_append_None)
  also have "\<dots> = Some u"
    using assms(2,3) by (auto simp: FAKE_USERS_DB_def)
  finally show ?thesis .
qed

subsection \<open>Login and the bearer token\<close>

text \<open>
  Claim C1. Let \<open>u\<close> be a user of the seed table \<^verbatim>\<open>FAKE_USERS_DB\<close> whose row is the
  one the store finds under its username (what \<open>on_startup\<close> establishes, see
  \<open>on_startup_seeds\<close> and \<open>on_startup_empty\<close>). A login whose form carries that
  username and exactly that password succeeds, and its \<^verbatim>\<open>access_token\<close> is the username;
  the header \<^verbatim>\<open>Bearer <token>\<close>, given to the dependency of the endpoints that require a
  caller, resolves to the user with the same id and username. A login whose username is
  missing or names no row, or whose password is not exactly that of the row, fails with
  401.
\<close>

theorem login_token_resolves:
  assumes "u \<in> set FAKE_USERS_DB" and "query_user_by_username db (username u) = Some u"
  shows "(\<forall>form. form ''username'' = Some (username u) \<and> form ''password'' = Some (password u) \<longrightarrow>
            login db form =
              Inr \<lparr>status_code = 200,
                   content = TokenJson \<lparr>access_token = username u, token_type = ''bearer'',
                     user = \<lparr>User_id = uid u, User_username = username u\<rparr>\<rparr>\<rparr>)
       \<and> Depends_get_current_user db (Some (''Bearer '' @ username u)) =
            Inr \<lparr>User_id = uid u, User_username = username u\<rparr>
       \<and> (\<forall>form. form ''username'' = None \<longrightarrow>
            login db form = Inl (HTTPException 401 ''Incorrect username or password''))
       \<and> (\<forall>form n. form ''username'' = Some n \<and> (\<forall>r\<in>set (users db). username r \<noteq> n) \<longrightarrow>
            login db form = Inl (HTTPException 401 ''Incorrect username or password''))
       \<and> (\<forall>form n r. form ''username'' = Some n \<and> query_user_by_username db n = Some r \<and>
              form ''password'' \<noteq> Some (password r) \<longrightarrow>
            login db form = Inl (HTTPException 401 ''Incorrect username or password''))"
proof -
  have tok: "bearer_token (''Bearer '' @ username u) = Inr (username u)"
    using FAKE_no_space[OF assms(1)] by (simp only: bearer_token_prefix) (simp add: str_split_no_sep)
  have "Depends_get_current_user db (Some (''Bearer '' @ username u)) =
            Inr \<lparr>User_id = uid u, User_username = username u\<rparr>"
    unfolding Depends_get_current_user_def get_current_user_def
    using tok startswith_Bearer[of "username u"] assms(2) by simp
  moreover have "\<forall>form. form ''username'' = Some (username u) \<and> form ''password'' = Some (password u) \<longrightarrow>
            login db form =
              Inr \<lparr>status_code = 200,
                   content = TokenJson \<lparr>access_token = username u, token_type = ''bearer'',
                     user = \<lparr>User_id = uid u, User_username = username u\<rparr>\<rparr>\<rparr>"
    using assms(2) by (simp add: login_def)
  moreover have "\<forall>form. form ''username'' = None \<longrightarrow>
            login db form = Inl (HTTPException 401 ''Incorrect username or password'')"
    by (simp add: login_def)
  moreover have "\<forall>form n. form ''username'' = Some n \<and> (\<forall>r\<in>set (users db). username r \<noteq> n) \<longrightarrow>
            login db form = Inl (HTTPException 401 ''Incorrect username or password'')"
    by (simp add: login_def query_user_None[symmetric])
  moreover have "\<forall>form n r. form ''username'' = Some n \<and> query_user_by_username db n = Some r \<and>
              form ''password'' \<noteq> Some (password r) \<longrightarrow>
            login db form = Inl (HTTPException 401 ''Incorrect username or password'')"
    by (auto simp: login_def)
  ultimately show ?thesis by blast
qed

theorem login_token_resolves_witness:
  "on_startup empty_db = Inr \<lparr>users = FAKE_USERS_DB, posts = [], likes = []\<rparr>
   \<and> login \<lparr>users = FAKE_USERS_DB, posts = [], likes = []\<rparr>
        [''username'' \<mapsto> ''user1'', ''password'' \<mapsto> ''password1''] =
       Inr \<lparr>status_code = 200,
            content = TokenJson \<lparr>access_token = ''user1'', token_type = ''bearer'',
              user = \<lparr>User_id = ''1'', User_username = ''user1''\<rparr>\<rparr>\<rparr>
   \<and> Depends_get_current_user \<lparr>users = FAKE_USERS_DB, posts = [], likes = []\<rparr> (Some ''Bearer user1'') =
       Inr \<lparr>User_id = ''1'', User_username = ''user1''\<rparr>
   \<and> login \<lparr>users = FAKE_USERS_DB, posts = [], likes = []\<rparr> [''password'' \<mapsto> ''password1''] =
       Inl (HTTPException 401 ''Incorrect username or password'')
   \<and> login \<lparr>users = FAKE_USERS_DB, posts = [], likes = []\<rparr>
        [''username'' \<mapsto> ''nobody'', ''password'' \<mapsto> ''password1''] =
       Inl (HTTPException 401 ''Incorrect username or password'')
   \<and> login \<lparr>users = FAKE_USERS_DB, posts = [], likes = []\<rparr>
        [''username'' \<mapsto> ''user1'', ''password'' \<mapsto> ''Password1''] =
       Inl (HTTPException 401 ''Incorrect username or password'')"
proof -
  let ?db = "\<lparr>users = FAKE_USERS_DB, posts = [], likes = []\<rparr>"
  let ?u = "\<lparr>uid = ''1'', username = ''user1'', password = ''password1''\<rparr>"
  have m: "?u \<in> set FAKE_USERS_DB" by (simp add: FAKE_USERS_DB_def)
  have q: "query_user_by_username ?db (username ?u) = Some ?u"
    by (simp add: query_user_by_username_def FAKE_USERS_DB_def)
  have q2: "\<forall>r\<in>set (users ?db). username r \<noteq> ''nobody''"
    by (simp add: FAKE_USERS_DB_def)
  note th = login_token_resolves[OF m q]
  from th have a: "login ?db [''username'' \<mapsto> ''user1'', ''password'' \<mapsto> ''password1''] =
       Inr \<lparr>status_code = 200,
            content = TokenJson \<lparr>access_token = ''user1'', token_type = ''bearer'',
              user = \<lparr>User_id = ''1'', User_username = ''user1''\<rparr>\<rparr>\<rparr>"
    by simp
  from th have b: "Depends_get_current_user ?db (Some ''Bearer user1'') =
       Inr \<lparr>User_id = ''1'', User_username = ''user1''\<rparr>" by simp
  from th q2 have c: "login ?db [''username'' \<mapsto> ''nobody'', ''password'' \<mapsto> ''password1''] =
       Inl (HTTPException 401 ''Incorrect username or password'')" by simp
  from th q have d: "login ?db [''username'' \<mapsto> ''user1'', ''password'' \<mapsto> ''Password1''] =
       Inl (HTTPException 401 ''Incorrect username or password'')" by simp
  from th have e: "login ?db [''password'' \<mapsto> ''password1''] =
       Inl (HTTPException 401 ''Incorrect username or password'')" by simp
  from a b c d e on_startup_empty show ?thesis by simp
qed

subsection \<open>Liking a post\<close>

lemma query_post_None: "query_post_by_id db p = None \<longleftrightarrow> (\<forall>x\<in>set (posts db). pid x \<noteq> p)"
  by (auto simp: query_post_by_id_def find_None_iff)

lemma query_like_None:
  "query_like db u p = None \<longleftrightarrow> (\<forall>l\<in>set (likes db). \<not> (user_id l = u \<and> post_id l = p))"
  by (auto simp: query_like_def find_None_iff)

lemma insert_like_fresh:
  "query_like db u p = None \<Longrightarrow>
   insert_like db u p = Inr (db\<lparr>likes := likes db @ [\<lparr>lid = next_lid (likes db), user_id = u, post_id = p\<rparr>]\<rparr>)"
  by (auto simp: insert_like_def query_like_None list_ex_iff)

lemma like_post_likes:
  "likes (fst (like_post db p cu)) = likes db \<or>
   (query_like db (User_id cu) p = None \<and>
    likes (fst (like_post db p cu)) = likes db @ [\<lparr>lid = next_lid (likes db), user_id = User_id cu, post_id = p\<rparr>])"
  by (auto simp: like_post_def insert_like_fresh split: option.splits)

lemma like_post_unique: "likes_unique db \<Longrightarrow> likes_unique (fst (like_post db p cu))"
  using like_post_likes[of db p cu]
  by (fastforce simp: likes_unique_def query_like_None)

lemma unlike_post_unique: "likes_unique db \<Longrightarrow> likes_unique (fst (unlike_post db p cu))"
  by (auto simp: unlike_post_def delete_like_row_def likes_unique_def distinct_map_filter split: option.splits)

lemma delete_post_likes: "likes (fst (delete_post db p cu)) = likes db"
  by (auto simp: delete_post_def delete_post_row_def split: option.splits sum.splits if_splits)

lemma create_post_likes: "likes (fst (create_post db t cu i n)) = likes db"
  by (auto simp: create_post_def insert_post_def Let_def split: sum.splits if_splits)

lemma app_unique: "likes_unique db \<Longrightarrow> likes_unique (fst (app db r))"
proof (cases r)
  case (CreatePost a j i n)
  then show "likes_unique db \<Longrightarrow> ?thesis"
    using create_post_likes
    by (auto simp: create_post_endpoint_def likes_unique_def split: sum.splits option.splits)
next
  case (DeletePost a p)
  then show "likes_unique db \<Longrightarrow> ?thesis"
    using delete_post_likes
    by (auto simp: delete_post_endpoint_def likes_unique_def split: sum.splits)
next
  case (LikePost a p)
  then show "likes_unique db \<Longrightarrow> ?thesis"
    using like_post_unique
    by (auto simp: like_post_endpoint_def split: sum.splits)
next
  case (UnlikePost a p)
  then show "likes_unique db \<Longrightarrow> ?thesis"
    using unlike_post_unique
    by (auto simp: unlike_post_endpoint_def split: sum.splits)
qed

lemma run_unique: "likes_unique db \<Longrightarrow> likes_unique (run db rs)"
  by (induction rs arbitrary: db) (auto simp: app_unique)

lemma distinct_map_count_le1:
  "distinct (map f xs) \<Longrightarrow> length (filter (\<lambda>x. f x = k) xs) \<le> 1"
  by (induction xs) (auto simp: filter_empty_conv image_iff)

text \<open>
  Claim C2. For every caller and post id, \<open>like_post\<close> fails with 404 and changes nothing
  when no post has that id; fails with 400 and changes nothing when the post exists and
  a like of the caller for it is already stored; and otherwise appends exactly one like
  for (caller, post) and answers 201. Hence, from any store that satisfies the unique
  constraint on (user_id, post_id), every sequence of requests leads to a store that
  satisfies it, in which no user has more than one like on any post.
\<close>

theorem like_post_once:
  "((\<forall>x\<in>set (posts db). pid x \<noteq> p) \<longrightarrow>
      like_post db p cu = (db, Inl (HTTPException 404 ''Post not found'')))
   \<and> ((\<exists>x\<in>set (posts db). pid x = p) \<and> (\<exists>l\<in>set (likes db). user_id l = User_id cu \<and> post_id l = p) \<longrightarrow>
      like_post db p cu = (db, Inl (HTTPException 400 ''Already liked'')))
   \<and> ((\<exists>x\<in>set (posts db). pid x = p) \<and> \<not> (\<exists>l\<in>set (likes db). user_id l = User_id cu \<and> post_id l = p) \<longrightarrow>
      like_post db p cu =
        (db\<lparr>likes := likes db @ [\<lparr>lid = next_lid (likes db), user_id = User_id cu, post_id = p\<rparr>]\<rparr>,
         Inr \<lparr>status_code = 201, content = Message ''Liked''\<rparr>))
   \<and> (likes_unique db \<longrightarrow>
        likes_unique (run db rs) \<and>
        (\<forall>u q. length (filter (\<lambda>l. user_id l = u \<and> post_id l = q) (likes (run db rs))) \<le> 1))"
proof -
  have a: "(\<forall>x\<in>set (posts db). pid x \<noteq> p) \<longrightarrow>
      like_post db p cu = (db, Inl (HTTPException 404 ''Post not found''))"
    by (simp add: like_post_def query_post_None[symmetric])
  have b: "(\<exists>x\<in>set (posts db). pid x = p) \<and> (\<exists>l\<in>set (likes db). user_id l = User_id cu \<and> post_id l = p) \<longrightarrow>
      like_post db p cu = (db, Inl (HTTPException 400 ''Already liked''))"
    using query_post_None[of db p] query_like_None[of db "User_id cu" p]
    by (auto simp: like_post_def split: option.splits)
  have c: "(\<exists>x\<in>set (posts db). pid x = p) \<and> \<not> (\<exists>l\<in>set (likes db). user_id l = User_id cu \<and> post_id l = p) \<longrightarrow>
      like_post db p cu =
        (db\<lparr>likes := likes db @ [\<lparr>lid = next_lid (likes db), user_id = User_id cu, post_id = p\<rparr>]\<rparr>,
         Inr \<lparr>status_code = 201, content = Message ''Liked''\<rparr>)"
    using query_post_None[of db p] query_like_None[of db "User_id cu" p]
    by (auto simp: like_post_def insert_like_fresh split: option.splits)
  have d: "likes_unique db \<longrightarrow>
        likes_unique (run db rs) \<and>
        (\<forall>u q. length (filter (\<lambda>l. user_id l = u \<and> post_id l = q) (likes (run db rs))) \<le> 1)"
  proof (intro impI conjI allI)
    assume u: "likes_unique db"
    then show "likes_unique (run db rs)" by (rule run_unique)
    fix u q
    from run_unique[OF \<open>likes_unique db\<close>]
    have "distinct (map (\<lambda>l. (user_id l, post_id l)) (likes (run db rs)))"
      by (simp add: likes_unique_def)
    from distinct_map_count_le1[OF this, of "(u, q)"]
    show "length (filter (\<lambda>l. user_id l = u \<and> post_id l = q) (likes (run db rs))) \<le> 1"
      by simp
  qed
  from a b c d show ?thesis by blast
qed

theorem like_post_once_witness:
  "like_post db_hello ''p0'' user2 = (db_hello, Inl (HTTPException 404 ''Post not found''))
   \<and> like_post db_hello ''p1'' user2 = (db_liked, Inr \<lparr>status_code = 201, content = Message ''Liked''\<rparr>)
   \<and> like_post db_liked ''p1'' user2 = (db_liked, Inl (HTTPException 400 ''Already liked''))
   \<and> likes_unique db_hello
   \<and> likes_unique (run db_hello [LikePost (Some ''Bearer user2'') ''p1'', LikePost (Some ''Bearer user2'') ''p1''])
   \<and> length (filter (\<lambda>l. user_id l = ''2'' \<and> post_id l = ''p1'')
        (likes (run db_hello [LikePost (Some ''Bearer user2'') ''p1'', LikePost (Some ''Bearer user2'') ''p1'']))) \<le> 1
   \<and> run db_hello [LikePost (Some ''Bearer user2'') ''p1'', LikePost (Some ''Bearer user2'') ''p1''] = db_liked"
proof -
  let ?rs = "[LikePost (Some ''Bearer user2'') ''p1'', LikePost (Some ''Bearer user2'') ''p1'']"
  have a: "like_post db_hello ''p0'' user2 = (db_hello, Inl (HTTPException 404 ''Post not found''))"
    using like_post_once[of db_hello "''p0''" user2 "[]"] by (simp add: example_defs)
  have b: "like_post db_hello ''p1'' user2 = (db_liked, Inr \<lparr>status_code = 201, content = Message ''Liked''\<rparr>)"
    using like_post_once[of db_hello "''p1''" user2 "[]"] by (simp add: example_defs next_lid_def)
  have c: "like_post db_liked ''p1'' user2 = (db_liked, Inl (HTTPException 400 ''Already liked''))"
    using like_post_once[of db_liked "''p1''" user2 "[]"] by (simp add: example_defs)
  have u: "likes_unique db_hello" by (simp add: likes_unique_def example_defs)
  have d: "likes_unique (run db_hello ?rs) \<and>
      length (filter (\<lambda>l. user_id l = ''2'' \<and> post_id l = ''p1'') (likes (run db_hello ?rs))) \<le> 1"
    using like_post_once[of db_hello "''p1''" user2 ?rs] u by blast
  have e: "run db_hello ?rs = db_liked"
    by (simp add: example_defs handler_defs)
  from a b c u d e show ?thesis by simp
qed

subsection \<open>Removing a like\<close>

lemma filter_key_remove1:
  "distinct (map f xs) \<Longrightarrow> k \<in> set xs \<Longrightarrow> filter (\<lambda>x. f x \<noteq> f k) xs = remove1 k xs"
proof (induction xs)
  case Nil
  then show ?case by simp
next
  case (Cons x xs)
  show ?case
  proof (cases "x = k")
    case True
    with Cons.prems have "f k \<notin> f ` set xs" by simp
    then have "\<forall>y\<in>set xs. f y \<noteq> f k" by (metis image_eqI)
    then have "filter (\<lambda>x. f x \<noteq> f k) xs = xs" by (simp add: filter_id_conv)
    with True show ?thesis by simp
  next
    case False
    with Cons.prems have "k \<in> set xs" and "f x \<noteq> f k" by auto
    with Cons show ?thesis using False by simp
  qed
qed

lemma query_like_Some:
  "query_like db u p = Some k \<Longrightarrow> k \<in> set (likes db) \<and> user_id k = u \<and> post_id k = p"
  by (auto simp: query_like_def find_Some_iff)

text \<open>
  Claim C5. For every caller and post id, \<open>unlike_post\<close> fails with 404 and changes
  nothing when no like is stored for (caller, post id); otherwise, the likes having
  distinct primary keys, it removes exactly one row, a like of the caller for that post
  id, and answers 204 with an empty body. The posts table plays no part: with any other
  posts table the answer and the resulting likes are the same.
\<close>

theorem unlike_post_cases:
  "(\<not> (\<exists>l\<in>set (likes db). user_id l = User_id cu \<and> post_id l = p) \<longrightarrow>
      unlike_post db p cu = (db, Inl (HTTPException 404 ''Like not found'')))
   \<and> (likes_pk db \<and> (\<exists>l\<in>set (likes db). user_id l = User_id cu \<and> post_id l = p) \<longrightarrow>
      (\<exists>k. k \<in> set (likes db) \<and> user_id k = User_id cu \<and> post_id k = p \<and>
           unlike_post db p cu =
             (db\<lparr>likes := remove1 k (likes db)\<rparr>, Inr \<lparr>status_code = 204, content = NoContent\<rparr>)))
   \<and> (\<forall>ps. unlike_post (db\<lparr>posts := ps\<rparr>) p cu =
             (fst (unlike_post db p cu)\<lparr>posts := ps\<rparr>, snd (unlike_post db p cu)))"
proof -
  have a: "\<not> (\<exists>l\<in>set (likes db). user_id l = User_id cu \<and> post_id l = p) \<longrightarrow>
      unlike_post db p cu = (db, Inl (HTTPException 404 ''Like not found''))"
    using query_like_None[of db "User_id cu" p] by (auto simp: unlike_post_def)
  have b: "likes_pk db \<and> (\<exists>l\<in>set (likes db). user_id l = User_id cu \<and> post_id l = p) \<longrightarrow>
      (\<exists>k. k \<in> set (likes db) \<and> user_id k = User_id cu \<and> post_id k = p \<and>
           unlike_post db p cu =
             (db\<lparr>likes := remove1 k (likes db)\<rparr>, Inr \<lparr>status_code = 204, content = NoContent\<rparr>))"
  proof
    assume h: "likes_pk db \<and> (\<exists>l\<in>set (likes db). user_id l = User_id cu \<and> post_id l = p)"
    then have "query_like db (User_id cu) p \<noteq> None"
      using query_like_None[of db "User_id cu" p] by blast
    then obtain k where k: "query_like db (User_id cu) p = Some k" by blast
    from query_like_Some[OF k] have kin: "k \<in> set (likes db)" "user_id k = User_id cu" "post_id k = p"
      by simp_all
    from h have "distinct (map lid (likes db))" by (simp add: likes_pk_def)
    from filter_key_remove1[OF this kin(1)]
    have "unlike_post db p cu =
             (db\<lparr>likes := remove1 k (likes db)\<rparr>, Inr \<lparr>status_code = 204, content = NoContent\<rparr>)"
      using k by (simp add: unlike_post_def delete_like_row_def)
    with kin show "\<exists>k. k \<in> set (likes db) \<and> user_id k = User_id cu \<and> post_id k = p \<and>
           unlike_post db p cu =
             (db\<lparr>likes := remove1 k (likes db)\<rparr>, Inr \<lparr>status_code = 204, content = NoContent\<rparr>)"
      by blast
  qed
  have c: "\<forall>ps. unlike_post (db\<lparr>posts := ps\<rparr>) p cu =
             (fst (unlike_post db p cu)\<lparr>posts := ps\<rparr>, snd (unlike_post db p cu))"
    by (simp add: unlike_post_def query_like_def delete_like_row_def split: option.splits)
  from a b c show ?thesis by blast
qed

theorem unlike_post_cases_witness:
  "unlike_post db_hello ''p1'' user2 = (db_hello, Inl (HTTPException 404 ''Like not found''))
   \<and> likes_pk db_liked
   \<and> unlike_post db_liked ''p1'' user2 = (db_hello, Inr \<lparr>status_code = 204, content = NoContent\<rparr>)
   \<and> unlike_post (db_liked\<lparr>posts := []\<rparr>) ''p1'' user2 =
       (db_hello\<lparr>posts := []\<rparr>, Inr \<lparr>status_code = 204, content = NoContent\<rparr>)"
proof -
  have a: "unlike_post db_hello ''p1'' user2 = (db_hello, Inl (HTTPException 404 ''Like not found''))"
    using unlike_post_cases[of db_hello user2 "''p1''", THEN conjunct1] by (simp add: example_defs)
  have pk: "likes_pk db_liked" by (simp add: likes_pk_def example_defs)
  have ex: "\<exists>l\<in>set (likes db_liked). user_id l = User_id user2 \<and> post_id l = ''p1''"
    by (simp add: example_defs)
  from unlike_post_cases[of db_liked user2 "''p1''", THEN conjunct2, THEN conjunct1] pk ex
  obtain k where k: "k \<in> set (likes db_liked)"
    and u: "unlike_post db_liked ''p1'' user2 =
             (db_liked\<lparr>likes := remove1 k (likes db_liked)\<rparr>, Inr \<lparr>status_code = 204, content = NoContent\<rparr>)"
    by blast
  from k have "k = \<lparr>lid = 1, user_id = ''2'', post_id = ''p1''\<rparr>" by (simp add: example_defs)
  with u have b: "unlike_post db_liked ''p1'' user2 = (db_hello, Inr \<lparr>status_code = 204, content = NoContent\<rparr>)"
    by (simp add: example_defs)
  from unlike_post_cases[of db_liked user2 "''p1''", THEN conjunct2, THEN conjunct2, THEN spec, of "[]"] b
  have c: "unlike_post (db_liked\<lparr>posts := []\<rparr>) ''p1'' user2 =
       (db_hello\<lparr>posts := []\<rparr>, Inr \<lparr>status_code = 204, content = NoContent\<rparr>)"
    by simp
  from a pk b c show ?thesis by simp
qed

subsection \<open>Deleting a post\<close>

text \<open>
  The four outcomes of \<open>delete_post\<close>: no such post (404), a post of somebody else (403,
  the store as it was, so the post is listed as before), the caller's own post without
  likes (removed, 204), and the caller's own post with at least one like (the commit
  raises, nothing is removed).
\<close>

lemma query_post_Some: "query_post_by_id db p = Some x \<Longrightarrow> x \<in> set (posts db) \<and> pid x = p"
  by (auto simp: query_post_by_id_def find_Some_iff)

lemma delete_post_not_found:
  "\<forall>x\<in>set (posts db). pid x \<noteq> p \<Longrightarrow>
   delete_post db p cu = (db, Inl (HTTPException 404 ''Post not found''))"
  by (simp add: delete_post_def query_post_None[symmetric])

lemma delete_post_forbidden:
  "query_post_by_id db p = Some x \<Longrightarrow> owner_id x \<noteq> User_id cu \<Longrightarrow>
   delete_post db p cu = (db, Inl (HTTPException 403 ''Not authorized to delete this post''))"
  by (simp add: delete_post_def)

lemma delete_post_unliked:
  "query_post_by_id db p = Some x \<Longrightarrow> owner_id x = User_id cu \<Longrightarrow>
   \<forall>l\<in>set (likes db). post_id l \<noteq> p \<Longrightarrow>
   delete_post db p cu =
     (db\<lparr>posts := filter (\<lambda>y. pid y \<noteq> p) (posts db)\<rparr>, Inr \<lparr>status_code = 204, content = NoContent\<rparr>)"
  by (frule query_post_Some) (auto simp: delete_post_def delete_post_row_def list_ex_iff)

lemma delete_post_liked:
  "query_post_by_id db p = Some x \<Longrightarrow> owner_id x = User_id cu \<Longrightarrow>
   \<exists>l\<in>set (likes db). post_id l = p \<Longrightarrow>
   delete_post db p cu = (db, Inl IntegrityError)"
  by (frule query_post_Some) (auto simp: delete_post_def delete_post_row_def list_ex_iff)

lemma delete_post_forbidden_listed:
  "query_post_by_id db p = Some x \<Longrightarrow> owner_id x \<noteq> User_id cu \<Longrightarrow>
   list_posts (fst (delete_post db p cu)) a = list_posts db a \<and>
   x \<in> set (posts (fst (delete_post db p cu)))"
  by (frule query_post_Some) (simp add: delete_post_forbidden)

text \<open>
  Claim C3 says that a delete by the owner of an existing post removes the post and
  answers 204. In the scenario of the specification, after user2 has liked the post
  "hello" of user1, the delete of that post by user1 raises \<^verbatim>\<open>IntegrityError\<close> at
  \<^verbatim>\<open>db.commit()\<close>: the request ends with status 500 and the post is still stored.
  The other three outcomes are as the claim says (\<open>delete_post_not_found\<close>,
  \<open>delete_post_forbidden\<close>, \<open>delete_post_forbidden_listed\<close>, \<open>delete_post_unliked\<close>).
\<close>

theorem delete_post_liked_fails:
  "query_post_by_id db_liked ''p1'' = Some hello_post
   \<and> owner_id hello_post = User_id user1
   \<and> delete_post db_liked ''p1'' user1 = (db_liked, Inl IntegrityError)
   \<and> delete_post_endpoint db_liked (Some ''Bearer user1'') ''p1'' = (db_liked, Inl IntegrityError)
   \<and> http_status (snd (delete_post_endpoint db_liked (Some ''Bearer user1'') ''p1'')) = 500
   \<and> query_post_by_id (fst (delete_post_endpoint db_liked (Some ''Bearer user1'') ''p1'')) ''p1'' =
       Some hello_post"
  by (simp add: example_defs handler_defs)

text \<open>
  The frame of \<open>delete_post\<close>. Whatever its outcome, it deletes and changes no like
  (and no user): the likes table after it is the likes table before it. When it answers
  with a response, the response is 204 with an empty body and the only change to the
  store is that the rows of \<^verbatim>\<open>posts\<close> with that id are gone. But it answers with a
  response only when no like references the post (\<open>delete_post_success_no_likes\<close>).
\<close>

lemma delete_post_keeps_likes:
  "likes (fst (delete_post db p cu)) = likes db
   \<and> users (fst (delete_post db p cu)) = users db
   \<and> (\<forall>r. snd (delete_post db p cu) = Inr r \<longrightarrow>
         r = \<lparr>status_code = 204, content = NoContent\<rparr> \<and>
         fst (delete_post db p cu) = db\<lparr>posts := filter (\<lambda>x. pid x \<noteq> p) (posts db)\<rparr>)"
proof -
  have a: "likes (fst (delete_post db p cu)) = likes db" by (rule delete_post_likes)
  have b: "users (fst (delete_post db p cu)) = users db"
    by (auto simp: delete_post_def delete_post_row_def split: option.splits sum.splits if_splits)
  have c: "\<forall>r. snd (delete_post db p cu) = Inr r \<longrightarrow>
         r = \<lparr>status_code = 204, content = NoContent\<rparr> \<and>
         fst (delete_post db p cu) = db\<lparr>posts := filter (\<lambda>x. pid x \<noteq> p) (posts db)\<rparr>"
  proof (cases "query_post_by_id db p")
    case None
    then show ?thesis by (simp add: delete_post_def)
  next
    case (Some x)
    from query_post_Some[OF Some] have "pid x = p" by simp
    with Some show ?thesis
      by (auto simp: delete_post_def delete_post_row_def split: if_splits)
  qed
  from a b c show ?thesis by blast
qed

lemma delete_post_keeps_likes_example:
  "snd (delete_post db_two ''p1'' user1) = Inr \<lparr>status_code = 204, content = NoContent\<rparr>
   \<and> fst (delete_post db_two ''p1'' user1) = db_two\<lparr>posts := [reply_post]\<rparr>
   \<and> likes (fst (delete_post db_two ''p1'' user1)) = [\<lparr>lid = 1, user_id = ''1'', post_id = ''p2''\<rparr>]
   \<and> users (fst (delete_post db_two ''p1'' user1)) = FAKE_USERS_DB"
proof -
  have s: "snd (delete_post db_two ''p1'' user1) = Inr \<lparr>status_code = 204, content = NoContent\<rparr>"
    by (simp add: example_defs more_example_defs handler_defs)
  note th = delete_post_keeps_likes[of db_two "''p1''" user1]
  from th s have "fst (delete_post db_two ''p1'' user1) =
      db_two\<lparr>posts := filter (\<lambda>x. pid x \<noteq> ''p1'') (posts db_two)\<rparr>"
    by blast
  then have f: "fst (delete_post db_two ''p1'' user1) = db_two\<lparr>posts := [reply_post]\<rparr>"
    by (simp add: example_defs more_example_defs)
  from th have "likes (fst (delete_post db_two ''p1'' user1)) = likes db_two"
    and "users (fst (delete_post db_two ''p1'' user1)) = users db_two"
    by blast+
  with s f show ?thesis by (simp add: more_example_defs)
qed

lemma delete_post_success_no_likes:
  assumes "snd (delete_post db p cu) = Inr r"
  shows "\<forall>l\<in>set (likes db). post_id l \<noteq> p"
proof (cases "query_post_by_id db p")
  case None
  with assms show ?thesis by (simp add: delete_post_def)
next
  case (Some x)
  from query_post_Some[OF Some] have "pid x = p" by simp
  with Some assms show ?thesis
    by (auto simp: delete_post_def delete_post_row_def list_ex_iff split: if_splits)
qed


subsection \<open>The Authorization header\<close>

lemma hd_str_split: "hd (str_split c s) = takeWhile (\<lambda>x. x \<noteq> c) s"
  by (induction s) (auto simp: str_split_ne split: list.splits)

lemma bearer_token_first_field:
  "bearer_token (''Bearer '' @ s) = Inr (takeWhile (\<lambda>x. x \<noteq> CHR '' '') s)"
  by (simp only: bearer_token_prefix hd_str_split)


lemma app_dependency_error:
  "Depends_get_current_user db (authorization_of r) = Inl e \<Longrightarrow> app db r = (db, Inl e)"
  by (cases r)
    (simp_all add: create_post_endpoint_def delete_post_endpoint_def like_post_endpoint_def
      unlike_post_endpoint_def)

text \<open>
  Claim C6, amended. On each of the four endpoints that require a caller (create post,
  delete post, like, unlike): a request whose Authorization header is present and does
  not start with \<^verbatim>\<open>"Bearer "\<close> fails with 401 and changes nothing; a request without
  the header is rejected before \<open>get_current_user\<close> runs, as a request lacking a
  required parameter, with 422, and changes nothing.
\<close>

theorem caller_required:
  "(authorization_of r = None \<longrightarrow>
      app db r = (db, Inl RequestValidationError) \<and> http_status (snd (app db r)) = 422)
   \<and> (\<forall>h. authorization_of r = Some h \<and> \<not> startswith h ''Bearer '' \<longrightarrow>
      app db r = (db, Inl (HTTPException 401 ''Invalid scheme'')) \<and> http_status (snd (app db r)) = 401)"
proof -
  have a: "authorization_of r = None \<longrightarrow>
      app db r = (db, Inl RequestValidationError) \<and> http_status (snd (app db r)) = 422"
  proof
    assume "authorization_of r = None"
    then have "Depends_get_current_user db (authorization_of r) = Inl RequestValidationError"
      by (simp add: Depends_get_current_user_def)
    from app_dependency_error[OF this]
    show "app db r = (db, Inl RequestValidationError) \<and> http_status (snd (app db r)) = 422"
      by simp
  qed
  have b: "\<forall>h. authorization_of r = Some h \<and> \<not> startswith h ''Bearer '' \<longrightarrow>
      app db r = (db, Inl (HTTPException 401 ''Invalid scheme'')) \<and> http_status (snd (app db r)) = 401"
  proof (intro allI impI)
    fix h
    assume "authorization_of r = Some h \<and> \<not> startswith h ''Bearer ''"
    then have "Depends_get_current_user db (authorization_of r) = Inl (HTTPException 401 ''Invalid scheme'')"
      by (simp add: Depends_get_current_user_def get_current_user_def)
    from app_dependency_error[OF this]
    show "app db r = (db, Inl (HTTPException 401 ''Invalid scheme'')) \<and> http_status (snd (app db r)) = 401"
      by simp
  qed
  from a b show ?thesis by blast
qed

theorem caller_required_witness:
  "app db_hello (LikePost None ''p1'') = (db_hello, Inl RequestValidationError)
   \<and> http_status (snd (app db_hello (LikePost None ''p1''))) = 422
   \<and> app db_hello (DeletePost (Some ''Basic user1'') ''p1'') = (db_hello, Inl (HTTPException 401 ''Invalid scheme''))
   \<and> http_status (snd (app db_hello (DeletePost (Some ''Basic user1'') ''p1''))) = 401
   \<and> app db_hello (CreatePost (Some ''bearer user1'') [''text'' \<mapsto> ''x''] ''p2'' 20) =
       (db_hello, Inl (HTTPException 401 ''Invalid scheme''))
   \<and> app db_hello (UnlikePost (Some ''Beareruser1'') ''p1'') = (db_hello, Inl (HTTPException 401 ''Invalid scheme''))"
proof -
  have a: "app db_hello (LikePost None ''p1'') = (db_hello, Inl RequestValidationError)
      \<and> http_status (snd (app db_hello (LikePost None ''p1''))) = 422"
    using caller_required[of "LikePost None ''p1''" db_hello, THEN conjunct1] by simp
  have b: "app db_hello (DeletePost (Some ''Basic user1'') ''p1'') = (db_hello, Inl (HTTPException 401 ''Invalid scheme''))
      \<and> http_status (snd (app db_hello (DeletePost (Some ''Basic user1'') ''p1''))) = 401"
    using caller_required[of "DeletePost (Some ''Basic user1'') ''p1''" db_hello, THEN conjunct2, THEN spec, of "''Basic user1''"]
    by (simp add: startswith_def)
  have c: "app db_hello (CreatePost (Some ''bearer user1'') [''text'' \<mapsto> ''x''] ''p2'' 20) =
       (db_hello, Inl (HTTPException 401 ''Invalid scheme''))"
    using caller_required[of "CreatePost (Some ''bearer user1'') [''text'' \<mapsto> ''x''] ''p2'' 20" db_hello,
        THEN conjunct2, THEN spec, of "''bearer user1''"]
    by (simp add: startswith_def)
  have d: "app db_hello (UnlikePost (Some ''Beareruser1'') ''p1'') = (db_hello, Inl (HTTPException 401 ''Invalid scheme''))"
    using caller_required[of "UnlikePost (Some ''Beareruser1'') ''p1''" db_hello,
        THEN conjunct2, THEN spec, of "''Beareruser1''"]
    by (simp add: startswith_def)
  from a b c d show ?thesis by simp
qed

text \<open>
  Claim C6 as stated gives 401 to a request without the header. A like request without
  it ends with 422.
\<close>

theorem absent_header_counterexample:
  "like_post_endpoint db_hello None ''p1'' = (db_hello, Inl RequestValidationError)
   \<and> http_status (snd (like_post_endpoint db_hello None ''p1'')) = 422
   \<and> http_status (snd (like_post_endpoint db_hello None ''p1'')) \<noteq> 401"
  by (simp add: like_post_endpoint_def Depends_get_current_user_def)

lemma optional_user_id_unknown:
  assumes "CHR '' '' \<notin> set t" and "query_user_by_username db t = None"
  shows "optional_user_id db (Some (''Bearer '' @ t)) = Inr None"
proof -
  have tok: "bearer_token (''Bearer '' @ t) = Inr t"
    using assms(1) by (simp only: bearer_token_prefix) (simp add: str_split_no_sep)
  show ?thesis
    unfolding optional_user_id_def
    using tok startswith_Bearer[of t] assms(2) by simp
qed

lemma optional_user_id_None: "optional_user_id db None = Inr None"
  by (simp add: optional_user_id_def)

text \<open>
  Claim C7, amended. Let the header be \<^verbatim>\<open>"Bearer "\<close> followed by a remainder without
  a space. The remainder is looked up as a username. When no user has it: each of the
  four endpoints that require a caller fails with 401 and changes nothing, whereas the
  two listings answer as they do to a request without the header (status 200 for
  \<open>list_posts\<close>). When a user has it, that user is the caller, for the endpoints that
  require one and for the listings.
\<close>

theorem bearer_token_lookup:
  assumes "CHR '' '' \<notin> set t"
  shows "(query_user_by_username db t = None \<longrightarrow>
            (\<forall>r. authorization_of r = Some (''Bearer '' @ t) \<longrightarrow>
               app db r = (db, Inl (HTTPException 401 ''Invalid token'')))
            \<and> list_posts db (Some (''Bearer '' @ t)) = list_posts db None
            \<and> http_status (list_posts db (Some (''Bearer '' @ t))) = 200
            \<and> (\<forall>name. get_user_posts db name (Some (''Bearer '' @ t)) = get_user_posts db name None))
       \<and> (\<forall>u. query_user_by_username db t = Some u \<longrightarrow>
            Depends_get_current_user db (Some (''Bearer '' @ t)) =
              Inr \<lparr>User_id = uid u, User_username = username u\<rparr>
            \<and> optional_user_id db (Some (''Bearer '' @ t)) = Inr (Some (uid u)))"
proof -
  have tok: "bearer_token (''Bearer '' @ t) = Inr t"
    using assms by (simp only: bearer_token_prefix) (simp add: str_split_no_sep)
  have dep: "Depends_get_current_user db (Some (''Bearer '' @ t)) =
      (case query_user_by_username db t of
         None \<Rightarrow> Inl (HTTPException 401 ''Invalid token'')
       | Some u \<Rightarrow> Inr \<lparr>User_id = uid u, User_username = username u\<rparr>)"
    unfolding Depends_get_current_user_def get_current_user_def
    using tok startswith_Bearer[of t] by simp
  have opt: "optional_user_id db (Some (''Bearer '' @ t)) =
      (case query_user_by_username db t of None \<Rightarrow> Inr None | Some u \<Rightarrow> Inr (Some (uid u)))"
    unfolding optional_user_id_def
    using tok startswith_Bearer[of t] by simp
  have a: "query_user_by_username db t = None \<longrightarrow>
            (\<forall>r. authorization_of r = Some (''Bearer '' @ t) \<longrightarrow>
               app db r = (db, Inl (HTTPException 401 ''Invalid token'')))"
  proof (intro impI allI)
    fix r
    assume "query_user_by_username db t = None" and "authorization_of r = Some (''Bearer '' @ t)"
    with dep have "Depends_get_current_user db (authorization_of r) = Inl (HTTPException 401 ''Invalid token'')"
      by simp
    then show "app db r = (db, Inl (HTTPException 401 ''Invalid token''))"
      by (rule app_dependency_error)
  qed
  have b: "query_user_by_username db t = None \<longrightarrow>
             list_posts db (Some (''Bearer '' @ t)) = list_posts db None
            \<and> http_status (list_posts db (Some (''Bearer '' @ t))) = 200
            \<and> (\<forall>name. get_user_posts db name (Some (''Bearer '' @ t)) = get_user_posts db name None)"
    using opt optional_user_id_None[of db]
    by (simp add: list_posts_def get_user_posts_def Let_def split: option.splits)
  have c: "\<forall>u. query_user_by_username db t = Some u \<longrightarrow>
            Depends_get_current_user db (Some (''Bearer '' @ t)) =
              Inr \<lparr>User_id = uid u, User_username = username u\<rparr>
            \<and> optional_user_id db (Some (''Bearer '' @ t)) = Inr (Some (uid u))"
    using dep opt by simp
  from a b c show ?thesis by blast
qed


theorem bearer_token_lookup_witness:
  "query_user_by_username db_liked ''nobody'' = None
   \<and> app db_liked (LikePost (Some ''Bearer nobody'') ''p1'') =
       (db_liked, Inl (HTTPException 401 ''Invalid token''))
   \<and> app db_liked (CreatePost (Some ''Bearer nobody'') [''text'' \<mapsto> ''x''] ''p2'' 20) =
       (db_liked, Inl (HTTPException 401 ''Invalid token''))
   \<and> list_posts db_liked (Some ''Bearer nobody'') = list_posts db_liked None
   \<and> get_user_posts db_liked ''user1'' (Some ''Bearer nobody'') = get_user_posts db_liked ''user1'' None
   \<and> Depends_get_current_user db_liked (Some ''Bearer user2'') = Inr user2
   \<and> optional_user_id db_liked (Some ''Bearer user2'') = Inr (Some ''2'')"
proof -
  have q: "query_user_by_username db_liked ''nobody'' = None"
    by (simp add: example_defs query_user_by_username_def)
  have q2: "query_user_by_username db_liked ''user2'' =
      Some \<lparr>uid = ''2'', username = ''user2'', password = ''password2''\<rparr>"
    by (simp add: example_defs query_user_by_username_def)
  have n: "CHR '' '' \<notin> set ''nobody''" by simp
  have n2: "CHR '' '' \<notin> set ''user2''" by simp
  note th = bearer_token_lookup[OF n, of db_liked, THEN conjunct1, rule_format, OF q]
  from th[THEN conjunct1, THEN spec, of "LikePost (Some ''Bearer nobody'') ''p1''"]
  have a: "app db_liked (LikePost (Some ''Bearer nobody'') ''p1'') =
       (db_liked, Inl (HTTPException 401 ''Invalid token''))"
    by simp
  from th[THEN conjunct1, THEN spec, of "CreatePost (Some ''Bearer nobody'') [''text'' \<mapsto> ''x''] ''p2'' 20"]
  have b: "app db_liked (CreatePost (Some ''Bearer nobody'') [''text'' \<mapsto> ''x''] ''p2'' 20) =
       (db_liked, Inl (HTTPException 401 ''Invalid token''))"
    by simp
  from th have c: "list_posts db_liked (Some ''Bearer nobody'') = list_posts db_liked None"
    by simp
  from th have d: "get_user_posts db_liked ''user1'' (Some ''Bearer nobody'') = get_user_posts db_liked ''user1'' None"
    by simp
  from bearer_token_lookup[OF n2, of db_liked, THEN conjunct2, rule_format, OF q2]
  have e: "Depends_get_current_user db_liked (Some ''Bearer user2'') = Inr user2
     \<and> optional_user_id db_liked (Some ''Bearer user2'') = Inr (Some ''2'')"
    by (simp add: user2_def)
  from q a b c d e show ?thesis by simp
qed

text \<open>
  Claim C7 as stated gives 401 to a listing whose bearer token names no user. The
  listing of all posts with the token \<^verbatim>\<open>nobody\<close> answers 200 with the posts,
  \<^verbatim>\<open>liked_by_me\<close> false.
\<close>

theorem list_posts_unknown_token_counterexample:
  "query_user_by_username db_liked ''nobody'' = None
   \<and> list_posts db_liked (Some ''Bearer nobody'') =
       Inr \<lparr>status_code = 200,
            content = PostsJson
              [\<lparr>pid = ''p1'', post_text = ''hello'', timestamp = 10, owner_id = ''1'',
                owner_username = ''user1'', likes_count = 1, liked_by_me = False\<rparr>]\<rparr>
   \<and> http_status (list_posts db_liked (Some ''Bearer nobody'')) = 200"
  by (simp add: example_defs handler_defs listing_defs)

subsection \<open>A like that loses a race, and the text of a new post\<close>

lemma like_post_shared_alone: "like_post_shared (\<lambda>d. d) db p cu = like_post db p cu"
  by (simp add: like_post_shared_def like_post_def)

lemma like_post_no_integrity_error: "snd (like_post db p cu) \<noteq> Inl IntegrityError"
  by (auto simp: like_post_def insert_like_fresh split: option.splits)

text \<open>
  Claim C8, amended. When the post exists and the handler's own check finds no like of
  the caller, but such a like is in the store when the INSERT arrives (another client
  committed it in between), the unique constraint refuses the INSERT and the handler
  does not catch the violation: the request ends with the unhandled \<^verbatim>\<open>IntegrityError\<close>,
  status 500. The answer 400 "Already liked" is given exactly when the post exists and
  the like is already there at the time of the handler's check. Served alone, the
  handler never meets the violation (\<open>like_post_shared_alone\<close>,
  \<open>like_post_no_integrity_error\<close>).
\<close>

theorem like_post_lost_race:
  "((\<exists>x\<in>set (posts db). pid x = p)
      \<and> \<not> (\<exists>l\<in>set (likes db). user_id l = User_id cu \<and> post_id l = p)
      \<and> (\<exists>l\<in>set (likes (others db)). user_id l = User_id cu \<and> post_id l = p) \<longrightarrow>
      like_post_shared others db p cu = (others db, Inl IntegrityError)
      \<and> http_status (snd (like_post_shared others db p cu)) = 500)
   \<and> (snd (like_post_shared others db p cu) = Inl (HTTPException 400 ''Already liked'') \<longleftrightarrow>
        (\<exists>x\<in>set (posts db). pid x = p) \<and>
        (\<exists>l\<in>set (likes db). user_id l = User_id cu \<and> post_id l = p))"
proof -
  have a: "(\<exists>x\<in>set (posts db). pid x = p)
      \<and> \<not> (\<exists>l\<in>set (likes db). user_id l = User_id cu \<and> post_id l = p)
      \<and> (\<exists>l\<in>set (likes (others db)). user_id l = User_id cu \<and> post_id l = p) \<longrightarrow>
      like_post_shared others db p cu = (others db, Inl IntegrityError)
      \<and> http_status (snd (like_post_shared others db p cu)) = 500"
    using query_post_None[of db p] query_like_None[of db "User_id cu" p]
    by (auto simp: like_post_shared_def insert_like_def list_ex_iff split: option.splits)
  have b: "snd (like_post_shared others db p cu) = Inl (HTTPException 400 ''Already liked'') \<longleftrightarrow>
        (\<exists>x\<in>set (posts db). pid x = p) \<and>
        (\<exists>l\<in>set (likes db). user_id l = User_id cu \<and> post_id l = p)"
    using query_post_None[of db p] query_like_None[of db "User_id cu" p]
    by (auto simp: like_post_shared_def insert_like_def split: option.splits)
  from a b show ?thesis by blast
qed

theorem like_post_lost_race_witness:
  "like_post_shared (\<lambda>d. fst (like_post_endpoint d (Some ''Bearer user1'') ''p1'')) db_liked ''p1'' user1 =
     (db_both, Inl IntegrityError)
   \<and> http_status (snd (like_post_shared
        (\<lambda>d. fst (like_post_endpoint d (Some ''Bearer user1'') ''p1'')) db_liked ''p1'' user1)) = 500
   \<and> snd (like_post_shared (\<lambda>d. d) db_liked ''p1'' user2) = Inl (HTTPException 400 ''Already liked'')"
proof -
  let ?others = "\<lambda>d. fst (like_post_endpoint d (Some ''Bearer user1'') ''p1'')"
  have o: "?others db_liked = db_both"
    by (simp add: example_defs more_example_defs handler_defs)
  have h: "(\<exists>x\<in>set (posts db_liked). pid x = ''p1'')
      \<and> \<not> (\<exists>l\<in>set (likes db_liked). user_id l = User_id user1 \<and> post_id l = ''p1'')
      \<and> (\<exists>l\<in>set (likes (?others db_liked)). user_id l = User_id user1 \<and> post_id l = ''p1'')"
    unfolding o by (simp add: example_defs more_example_defs)
  from like_post_lost_race[of db_liked "''p1''" user1 ?others, THEN conjunct1] h
  have a: "like_post_shared ?others db_liked ''p1'' user1 = (?others db_liked, Inl IntegrityError)
      \<and> http_status (snd (like_post_shared ?others db_liked ''p1'' user1)) = 500"
    by blast
  have h2: "(\<exists>x\<in>set (posts db_liked). pid x = ''p1'') \<and>
        (\<exists>l\<in>set (likes db_liked). user_id l = User_id user2 \<and> post_id l = ''p1'')"
    by (simp add: example_defs)
  from like_post_lost_race[of db_liked "''p1''" user2 "\<lambda>d. d", THEN conjunct2] h2
  have b: "snd (like_post_shared (\<lambda>d. d) db_liked ''p1'' user2) = Inl (HTTPException 400 ''Already liked'')"
    by blast
  from a b o show ?thesis by simp
qed

text \<open>
  Claim C8 as stated expects 400 from the request that loses the race. Two likes of the
  post "hello" by user2, the second one committed between the check and the INSERT of
  the first: the first request ends with \<^verbatim>\<open>IntegrityError\<close>, status 500.
\<close>

theorem concurrent_like_counterexample:
  "like_post db_hello ''p1'' user2 = (db_liked, Inr \<lparr>status_code = 201, content = Message ''Liked''\<rparr>)
   \<and> like_post_shared (\<lambda>d. fst (like_post d ''p1'' user2)) db_hello ''p1'' user2 =
       (db_liked, Inl IntegrityError)
   \<and> http_status (snd (like_post_shared (\<lambda>d. fst (like_post d ''p1'' user2)) db_hello ''p1'' user2)) = 500"
  by (simp add: example_defs handler_defs like_post_shared_def)

text \<open>
  Claim C10, amended. A create request that is answered with a response had a caller
  and a field \<^verbatim>\<open>text\<close>; the answer is 201 and exactly one post is appended, whose text
  is the text supplied, whatever string that is. A request that ends with an error
  stores nothing. A request without the field \<^verbatim>\<open>text\<close> stores nothing: it ends with
  the error of the caller's resolution when there is one, and with the 422 validation
  error otherwise.
\<close>

theorem create_post_requires_text:
  "(\<forall>r. snd (create_post_endpoint db a j i n) = Inr r \<longrightarrow>
      (\<exists>t u. j ''text'' = Some t \<and> Depends_get_current_user db a = Inr u \<and>
         r = \<lparr>status_code = 201,
              content = PostJson \<lparr>pid = i, post_text = t, timestamp = n, owner_id = User_id u,
                                  owner_username = User_username u\<rparr>\<rparr> \<and>
         fst (create_post_endpoint db a j i n) =
           db\<lparr>posts := posts db @ [\<lparr>pid = i, post_text = t, timestamp = n, owner_id = User_id u,
                                     owner_username = User_username u\<rparr>]\<rparr>))
   \<and> (\<forall>e. snd (create_post_endpoint db a j i n) = Inl e \<longrightarrow> fst (create_post_endpoint db a j i n) = db)
   \<and> (j ''text'' = None \<longrightarrow>
        fst (create_post_endpoint db a j i n) = db
        \<and> (\<forall>e. Depends_get_current_user db a = Inl e \<longrightarrow> snd (create_post_endpoint db a j i n) = Inl e)
        \<and> (\<forall>u. Depends_get_current_user db a = Inr u \<longrightarrow>
              snd (create_post_endpoint db a j i n) = Inl RequestValidationError
              \<and> http_status (snd (create_post_endpoint db a j i n)) = 422))"
proof -
  have a: "\<forall>r. snd (create_post_endpoint db a j i n) = Inr r \<longrightarrow>
      (\<exists>t u. j ''text'' = Some t \<and> Depends_get_current_user db a = Inr u \<and>
         r = \<lparr>status_code = 201,
              content = PostJson \<lparr>pid = i, post_text = t, timestamp = n, owner_id = User_id u,
                                  owner_username = User_username u\<rparr>\<rparr> \<and>
         fst (create_post_endpoint db a j i n) =
           db\<lparr>posts := posts db @ [\<lparr>pid = i, post_text = t, timestamp = n, owner_id = User_id u,
                                     owner_username = User_username u\<rparr>]\<rparr>)"
    by (auto simp: create_post_endpoint_def create_post_def insert_post_def Let_def
        split: sum.splits option.splits if_splits)
  have b: "\<forall>e. snd (create_post_endpoint db a j i n) = Inl e \<longrightarrow> fst (create_post_endpoint db a j i n) = db"
    by (auto simp: create_post_endpoint_def create_post_def insert_post_def Let_def
        split: sum.splits option.splits if_splits)
  have c: "j ''text'' = None \<longrightarrow>
        fst (create_post_endpoint db a j i n) = db
        \<and> (\<forall>e. Depends_get_current_user db a = Inl e \<longrightarrow> snd (create_post_endpoint db a j i n) = Inl e)
        \<and> (\<forall>u. Depends_get_current_user db a = Inr u \<longrightarrow>
              snd (create_post_endpoint db a j i n) = Inl RequestValidationError
              \<and> http_status (snd (create_post_endpoint db a j i n)) = 422)"
    by (auto simp: create_post_endpoint_def split: sum.splits)
  from a b c show ?thesis by blast
qed

theorem create_post_requires_text_witness:
  "snd (create_post_endpoint db_hello (Some ''Bearer user2'') [''text'' \<mapsto> ''hi''] ''p2'' 20) =
     Inr \<lparr>status_code = 201, content = PostJson reply_post\<rparr>
   \<and> fst (create_post_endpoint db_hello (Some ''Bearer user2'') [''text'' \<mapsto> ''hi''] ''p2'' 20) =
       db_hello\<lparr>posts := [hello_post, reply_post]\<rparr>
   \<and> create_post_endpoint db_hello (Some ''Bearer user2'') Map.empty ''p2'' 20 =
       (db_hello, Inl RequestValidationError)
   \<and> http_status (snd (create_post_endpoint db_hello (Some ''Bearer user2'') Map.empty ''p2'' 20)) = 422
   \<and> create_post_endpoint db_hello (Some ''Bearer nobody'') Map.empty ''p2'' 20 =
       (db_hello, Inl (HTTPException 401 ''Invalid token''))
   \<and> snd (create_post_endpoint db_hello (Some ''Bearer user2'') [''text'' \<mapsto> ''hi''] ''p1'' 20) =
       Inl IntegrityError
   \<and> fst (create_post_endpoint db_hello (Some ''Bearer user2'') [''text'' \<mapsto> ''hi''] ''p1'' 20) =
       db_hello"
proof -
  let ?ok = "create_post_endpoint db_hello (Some ''Bearer user2'') [''text'' \<mapsto> ''hi''] ''p2'' 20"
  have s: "snd ?ok = Inr \<lparr>status_code = 201, content = PostJson reply_post\<rparr>"
    by (simp add: example_defs more_example_defs handler_defs Let_def)
  have d: "Depends_get_current_user db_hello (Some ''Bearer user2'') = Inr user2"
    by (simp add: example_defs handler_defs)
  have d2: "Depends_get_current_user db_hello (Some ''Bearer nobody'') = Inl (HTTPException 401 ''Invalid token'')"
    by (simp add: example_defs handler_defs)
  from create_post_requires_text[of db_hello "Some ''Bearer user2''" "[''text'' \<mapsto> ''hi'']" "''p2''" 20,
      THEN conjunct1, THEN spec, of "\<lparr>status_code = 201, content = PostJson reply_post\<rparr>"] s d
  have f: "fst ?ok = db_hello\<lparr>posts := [hello_post, reply_post]\<rparr>"
    by (auto simp: example_defs more_example_defs)
  from create_post_requires_text[of db_hello "Some ''Bearer user2''" Map.empty "''p2''" 20,
      THEN conjunct2, THEN conjunct2] d
  have m: "create_post_endpoint db_hello (Some ''Bearer user2'') Map.empty ''p2'' 20 =
       (db_hello, Inl RequestValidationError)
     \<and> http_status (snd (create_post_endpoint db_hello (Some ''Bearer user2'') Map.empty ''p2'' 20)) = 422"
    by (simp add: prod_eq_iff)
  from create_post_requires_text[of db_hello "Some ''Bearer nobody''" Map.empty "''p2''" 20,
      THEN conjunct2, THEN conjunct2] d2
  have u: "create_post_endpoint db_hello (Some ''Bearer nobody'') Map.empty ''p2'' 20 =
       (db_hello, Inl (HTTPException 401 ''Invalid token''))"
    by (simp add: prod_eq_iff)
  have k: "snd (create_post_endpoint db_hello (Some ''Bearer user2'') [''text'' \<mapsto> ''hi''] ''p1'' 20) =
       Inl IntegrityError"
    by (simp add: example_defs handler_defs Let_def)
  from create_post_requires_text[of db_hello "Some ''Bearer user2''" "[''text'' \<mapsto> ''hi'']" "''p1''" 20,
      THEN conjunct2, THEN conjunct1] k
  have r: "fst (create_post_endpoint db_hello (Some ''Bearer user2'') [''text'' \<mapsto> ''hi''] ''p1'' 20) =
       db_hello"
    by simp
  from s f m u k r show ?thesis by simp
qed

text \<open>
  Claim C10 as stated lets no post with an empty text be stored. A create request of
  user2 with the text \<^verbatim>\<open>""\<close> is answered 201 and the post with the empty text is
  stored.
\<close>

theorem empty_text_counterexample:
  "create_post_endpoint db_hello (Some ''Bearer user2'') [''text'' \<mapsto> ''''] ''p2'' 20 =
     (db_hello\<lparr>posts := [hello_post,
        \<lparr>pid = ''p2'', post_text = '''', timestamp = 20, owner_id = ''2'', owner_username = ''user2''\<rparr>]\<rparr>,
      Inr \<lparr>status_code = 201,
           content = PostJson \<lparr>pid = ''p2'', post_text = '''', timestamp = 20, owner_id = ''2'',
                               owner_username = ''user2''\<rparr>\<rparr>)"
  by (simp add: example_defs handler_defs Let_def)

subsection \<open>Listing posts\<close>













subsection \<open>What every request keeps\<close>

text \<open>
  The hypotheses of the theorems above are kept by the application: the primary key of
  \<^verbatim>\<open>likes\<close> stays distinct, no request changes \<^verbatim>\<open>users\<close>, and the users after a
  start have non-empty ids when those before it had.
\<close>

lemma next_lid_fresh: "l \<in> set ls \<Longrightarrow> lid l < next_lid ls"
proof (cases ls)
  case Nil
  then show "l \<in> set ls \<Longrightarrow> ?thesis" by simp
next
  case (Cons x xs)
  assume "l \<in> set ls"
  then have "lid l \<in> set (map lid (x # xs))" using Cons by auto
  then have "lid l \<le> Max (set (map lid (x # xs)))" by (intro Max_ge) auto
  also have "\<dots> = fold max (map lid xs) (lid x)"
    using Max.set_eq_fold[of "lid x" "map lid xs"] by simp
  finally show ?thesis using Cons by (simp add: next_lid_def)
qed

lemma like_post_pk: "likes_pk db \<Longrightarrow> likes_pk (fst (like_post db p cu))"
  using like_post_likes[of db p cu] next_lid_fresh[of _ "likes db"]
  by (fastforce simp: likes_pk_def)

lemma unlike_post_pk: "likes_pk db \<Longrightarrow> likes_pk (fst (unlike_post db p cu))"
  by (auto simp: unlike_post_def delete_like_row_def likes_pk_def distinct_map_filter split: option.splits)

lemma app_likes_pk: "likes_pk db \<Longrightarrow> likes_pk (fst (app db r))"
proof (cases r)
  case (CreatePost a j i n)
  then show "likes_pk db \<Longrightarrow> ?thesis"
    using create_post_likes
    by (auto simp: create_post_endpoint_def likes_pk_def split: sum.splits option.splits)
next
  case (DeletePost a p)
  then show "likes_pk db \<Longrightarrow> ?thesis"
    using delete_post_likes
    by (auto simp: delete_post_endpoint_def likes_pk_def split: sum.splits)
next
  case (LikePost a p)
  then show "likes_pk db \<Longrightarrow> ?thesis"
    using like_post_pk
    by (auto simp: like_post_endpoint_def split: sum.splits)
next
  case (UnlikePost a p)
  then show "likes_pk db \<Longrightarrow> ?thesis"
    using unlike_post_pk
    by (auto simp: unlike_post_endpoint_def split: sum.splits)
qed

lemma run_likes_pk: "likes_pk db \<Longrightarrow> likes_pk (run db rs)"
  by (induction rs arbitrary: db) (auto simp: app_likes_pk)

lemma app_users: "users (fst (app db r)) = users db"
  by (cases r)
    (auto simp: create_post_endpoint_def delete_post_endpoint_def like_post_endpoint_def
      unlike_post_endpoint_def create_post_def insert_post_def delete_post_def delete_post_row_def
      like_post_def insert_like_def unlike_post_def delete_like_row_def Let_def
      split: sum.splits option.splits if_splits)

lemma run_users: "users (run db rs) = users db"
  by (induction rs arbitrary: db) (auto simp: app_users)

lemma on_startup_empty_seeded: "on_startup empty_db = Inr db \<Longrightarrow> seeded db"
  using on_startup_empty by (auto simp: seeded_def)

lemma seeded_ids: "seeded db \<Longrightarrow> \<forall>u\<in>set (users db). uid u \<noteq> []"
  by (simp add: seeded_def FAKE_USERS_DB_def)

lemma seeded_run: "seeded db \<Longrightarrow> seeded (run db rs)"
  by (simp add: seeded_def run_users)

lemma on_startup_ids:
  assumes "on_startup db0 = Inr db" and "\<forall>u\<in>set (users db0). uid u \<noteq> []"
  shows "\<forall>u\<in>set (users db). uid u \<noteq> []"
proof -
  let ?pending = "filter (\<lambda>r. query_user_by_username db0 (username r) = None) FAKE_USERS_DB"
  from assms(1) obtain t where t: "insert_users (users db0) ?pending = Inr t" and db: "db = db0\<lparr>users := t\<rparr>"
    by (auto simp: on_startup_def Let_def split: sum.splits)
  from t have "t = users db0 @ ?pending" by (rule insert_users_Inr)
  with db assms(2) show ?thesis by (auto simp: FAKE_USERS_DB_def)
qed

end
